theory Spec2Isabelle
  imports Complex_Main "HOL-Library.Char_ord" "HOL-Library.List_Lexorder"
begin

chapter \<open>The evolution data pipeline of echos-backend\<close>

text \<open>
  A shallow embedding of \<open>api/utils.py\<close> (loading of era files, similarity ranking,
  centroids, drift and the timeline) and of \<open>api/etymology_service.py\<close> (the generation
  client with its retries, the response parser and the cached generator), followed by the
  properties of these functions.
\<close>

section \<open>Errors and data model\<close>

text \<open>
  Python exceptions are values of \<open>py_error\<close>; a function that may raise returns
  \<open>py_error + 'a\<close> with \<open>Inl\<close> for the exception. \<open>OSError\<close> stands for every
  \<open>OSError\<close> that is not a \<open>FileNotFoundError\<close> (a name that is too long, a path that is
  not a directory, a refused access). A \<open>FileNotFoundError\<close> of \<open>utils.py\<close> carries its
  message as the statement that builds it and the names the path is made of; how
  \<open>pathlib\<close> renders the path is not modelled. The other messages are texts.
\<close>

datatype not_found =
    ConceptDirectory string
  | EmbeddingFile string string

datatype py_error =
    FileNotFoundError not_found
  | OSError
  | EmbeddingValidationError
  | ValueError string
  | JSONDecodeError string
  | KeyError
  | TypeError
  | AttributeError
  | OverflowError
  | RecursionError
  | OpenRouterError string
  | TimeoutError

text \<open>
  An item of an era file (\<open>utils.py\<close>, \<open>Dict[str, Any]\<close>) is a JSON object. The model
  keeps the three keys the code reads; a key that is absent is \<open>None\<close>. The values are
  typed as the file layout gives them: \<open>id\<close> and \<open>text\<close> are strings and \<open>embedding\<close> is
  an array of finite numbers (possibly empty), so the \<open>isinstance\<close> test of
  \<open>validate_item\<close> holds for every embedding that is present. Numbers are real
  numbers: the rounding of binary floating point is not modelled.
\<close>

record item =
  item_id :: "string option"
  item_text :: "string option"
  item_embedding :: "real list option"

section \<open>utils.py: the drift engine\<close>

subsection \<open>The library calls\<close>

text \<open>
  \<open>sklearn.metrics.pairwise.cosine_similarity\<close> on two single rows: the input check
  raises \<open>ValueError\<close> for a row with no feature and for rows of different widths;
  otherwise both rows are scaled to unit length (a zero norm is replaced by 1) and
  multiplied.
\<close>

definition row_norm :: "real list \<Rightarrow> real" where
  "row_norm x = sqrt (\<Sum>v\<leftarrow>x. v * v)"

definition normalize :: "real list \<Rightarrow> real list" where
  "normalize x = (let n = row_norm x; n1 = (if n = 0 then 1 else n) in map (\<lambda>v. v / n1) x)"

definition dot :: "real list \<Rightarrow> real list \<Rightarrow> real" where
  "dot a b = (\<Sum>(u, v)\<leftarrow>zip a b. u * v)"

definition cosine_similarity :: "real list \<Rightarrow> real list \<Rightarrow> py_error + real" where
  "cosine_similarity a b =
     (if a = [] \<or> b = [] then Inl (ValueError ''Found array with 0 feature(s)'')
      else if length a \<noteq> length b then Inl (ValueError ''Incompatible dimension for X and Y matrices'')
      else Inr (dot (normalize a) (normalize b)))"

text \<open>\<open>np.mean(X, axis=0)\<close> on a matrix with \<open>d\<close> columns.\<close>

definition np_mean_axis0 :: "real list list \<Rightarrow> nat \<Rightarrow> real list" where
  "np_mean_axis0 X d = map (\<lambda>j. (\<Sum>row\<leftarrow>X. row ! j) / real (length X)) [0..<d]"

subsection \<open>\<open>_to_numpy_embeddings\<close>\<close>

text \<open>
  The rows are \<open>np.array(it["embedding"], dtype=float)\<close>; a missing key raises
  \<open>KeyError\<close> and rows of different lengths make \<open>np.array(embs)\<close> raise
  \<open>ValueError\<close>; both are re-raised as \<open>EmbeddingValidationError\<close>. The empty item
  list gives the empty array.
\<close>

fun those_embeddings :: "item list \<Rightarrow> real list list option" where
  "those_embeddings [] = Some []"
| "those_embeddings (it # its) =
     (case item_embedding it of
        None \<Rightarrow> None
      | Some e \<Rightarrow> (case those_embeddings its of None \<Rightarrow> None | Some es \<Rightarrow> Some (e # es)))"

definition to_numpy_embeddings :: "item list \<Rightarrow> py_error + real list list" where
  "to_numpy_embeddings items =
     (if items = [] then Inr []
      else (case those_embeddings items of
              None \<Rightarrow> Inl EmbeddingValidationError
            | Some embs \<Rightarrow>
                if list_all (\<lambda>e. length e = length (hd embs)) embs then Inr embs
                else Inl EmbeddingValidationError))"

text \<open>\<open>X.size\<close>: the number of entries of the array.\<close>

definition np_size :: "real list list \<Rightarrow> nat" where
  "np_size X = (case X of [] \<Rightarrow> 0 | row # _ \<Rightarrow> length X * length row)"

subsection \<open>\<open>compute_centroid\<close> and \<open>centroid_shift_score\<close>\<close>

definition compute_centroid :: "item list \<Rightarrow> real list option" where
  "compute_centroid items =
     (if items = [] then None
      else (case to_numpy_embeddings items of
              Inl e \<Rightarrow> None
            | Inr X \<Rightarrow> if np_size X = 0 then None else Some (np_mean_axis0 X (length (hd X)))))"

text \<open>
  \<open>centroid_shift_score\<close>: the body of the \<open>try\<close> is the cosine of the two reshaped
  rows; \<open>except Exception\<close> turns every exception of the body into the value 0.0. The
  result type keeps the error summand, so that "does not raise" is a statement about the
  function and not a consequence of its type.
\<close>

definition centroid_shift_score :: "real list option \<Rightarrow> real list option \<Rightarrow> py_error + real" where
  "centroid_shift_score centroid_a centroid_b =
     (case (centroid_a, centroid_b) of
        (None, _) \<Rightarrow> Inr 0
      | (_, None) \<Rightarrow> Inr 0
      | (Some a, Some b) \<Rightarrow>
          (case cosine_similarity a b of
             Inr sim \<Rightarrow> Inr (1 - sim)
           | Inl e \<Rightarrow> Inr 0))"

section \<open>utils.py: the similarity engine\<close>

record top_item =
  top_id :: string
  top_text :: string
  score :: real

text \<open>
  \<open>cosine_similarity([query_emb], X)[0]\<close>: one similarity per row of \<open>X\<close>, or the
  \<open>ValueError\<close> of the input check when the widths differ.
\<close>

definition cosine_similarity_rows :: "real list \<Rightarrow> real list list \<Rightarrow> py_error + real list" where
  "cosine_similarity_rows q X =
     (if q = [] \<or> list_ex (\<lambda>row. row = []) X then Inl (ValueError ''Found array with 0 feature(s)'')
      else if list_ex (\<lambda>row. length row \<noteq> length q) X
        then Inl (ValueError ''Incompatible dimension for X and Y matrices'')
      else Inr (map (\<lambda>row. dot (normalize q) (normalize row)) X))"

text \<open>
  \<open>np.argsort(sims)\<close>: the indices of \<open>sims\<close> in ascending order of their values.
  The model is the insertion sort that NumPy's default kind runs on short arrays, which
  leaves equal values in index order; NumPy promises no order among equal values for
  this kind.
\<close>

definition argsort :: "real list \<Rightarrow> nat list" where
  "argsort sims = sort_key (\<lambda>i. sims ! i) [0..<length sims]"

text \<open>The slice \<open>xs[:k]\<close>: a negative \<open>k\<close> counts from the end.\<close>

definition py_slice_to :: "int \<Rightarrow> 'a list \<Rightarrow> 'a list" where
  "py_slice_to k xs =
     (if 0 \<le> k then take (nat k) xs else take (nat (int (length xs) + k)) xs)"

text \<open>One entry of \<open>out\<close>; \<open>items[i]["id"]\<close> and \<open>items[i]["text"]\<close> raise \<open>KeyError\<close>
  on a missing key.\<close>

definition out_entry :: "item \<Rightarrow> real \<Rightarrow> py_error + top_item" where
  "out_entry it s =
     (case item_id it of
        None \<Rightarrow> Inl KeyError
      | Some i \<Rightarrow>
          (case item_text it of
             None \<Rightarrow> Inl KeyError
           | Some t \<Rightarrow> Inr \<lparr>top_id = i, top_text = t, score = s\<rparr>))"

fun build_out :: "item list \<Rightarrow> real list \<Rightarrow> nat list \<Rightarrow> py_error + top_item list" where
  "build_out items sims [] = Inr []"
| "build_out items sims (i # idx) =
     (case out_entry (items ! i) (sims ! i) of
        Inl e \<Rightarrow> Inl e
      | Inr r \<Rightarrow> (case build_out items sims idx of Inl e \<Rightarrow> Inl e | Inr rs \<Rightarrow> Inr (r # rs)))"

text \<open>The body of the \<open>try\<close> of \<open>top_similar_in_era\<close>.\<close>

definition top_similar_body :: "real list \<Rightarrow> item list \<Rightarrow> int \<Rightarrow> py_error + top_item list" where
  "top_similar_body query_emb items top_n =
     (case to_numpy_embeddings items of
        Inl e \<Rightarrow> Inl e
      | Inr X \<Rightarrow>
          if np_size X = 0 then Inr []
          else (case cosine_similarity_rows query_emb X of
                  Inl e \<Rightarrow> Inl e
                | Inr sims \<Rightarrow>
                    let actual_top_n = min top_n (int (length items));
                        idx = py_slice_to actual_top_n (rev (argsort sims))
                    in build_out items sims idx))"

text \<open>
  \<open>top_similar_in_era\<close>: the two early returns, then the body; the handler catches
  \<open>EmbeddingValidationError\<close> only, every other exception leaves the function.
\<close>

definition top_similar_in_era :: "real list \<Rightarrow> item list \<Rightarrow> int \<Rightarrow> py_error + top_item list" where
  "top_similar_in_era query_emb items top_n =
     (if items = [] then Inr []
      else if query_emb = [] then Inr []
      else (case top_similar_body query_emb items top_n of
              Inl EmbeddingValidationError \<Rightarrow> Inr []
            | Inl e \<Rightarrow> Inl e
            | Inr out \<Rightarrow> Inr out))"


section \<open>utils.py: loading the era files\<close>

text \<open>
  What the file system holds at \<open>embeddings/<concept>\<close>:
  \<^item> \<open>Missing\<close>: nothing, \<open>exists()\<close> is false;
  \<^item> \<open>StatFails\<close>: \<open>exists()\<close> raises an \<open>OSError\<close>, as for a name that is too long, for
    this path and for every path below it;
  \<^item> \<open>NotDirectory\<close>: a regular file: \<open>exists()\<close> is true, \<open>iterdir()\<close> raises
    \<open>NotADirectoryError\<close>, and no path below it exists;
  \<^item> \<open>Dir\<close>: a directory of regular files, name and content.

  The content of a file is what \<open>load_era_items\<close> meets when it reads it: \<open>NotJson\<close> when
  \<open>json.load\<close> raises \<open>JSONDecodeError\<close>; \<open>EraDoc\<close> for a JSON object, with its value
  under \<open>"items"\<close>, a list of items, or \<open>None\<close> when the key is absent; and
  \<open>LoadRaises e\<close> when reading the file or using its value raises another exception
  \<open>e\<close> (the top-level value is not an object, the value under \<open>"items"\<close> is not a list of
  objects, the file cannot be read).
\<close>

datatype era_file = NotJson | EraDoc "item list option" | LoadRaises py_error

type_synonym directory = "(string \<times> era_file) list"

datatype fs_node = Missing | StatFails | NotDirectory | Dir directory

type_synonym disk = "string \<Rightarrow> fs_node"

definition validate_item :: "item \<Rightarrow> nat \<Rightarrow> py_error + unit" where
  "validate_item it index =
     (if item_id it = None then Inl EmbeddingValidationError
      else if item_text it = None then Inl EmbeddingValidationError
      else (case item_embedding it of
              None \<Rightarrow> Inl EmbeddingValidationError
            | Some e \<Rightarrow> if length e = 0 then Inl EmbeddingValidationError else Inr ()))"

text \<open>\<open>all(field in item for field in ["id", "text", "embedding"])\<close>\<close>

definition has_required_fields :: "item \<Rightarrow> bool" where
  "has_required_fields it =
     (item_id it \<noteq> None \<and> item_text it \<noteq> None \<and> item_embedding it \<noteq> None)"

text \<open>
  \<open>load_era_items\<close>. The loop that calls \<open>validate_item\<close> on every item only logs a
  warning for an item that fails and goes on; what is returned is the list filtered by
  the presence of the three keys.
\<close>

definition load_era_items :: "disk \<Rightarrow> string \<Rightarrow> string \<Rightarrow> py_error + item list" where
  "load_era_items d concept era_file =
     (case d concept of
        Missing \<Rightarrow> Inl (FileNotFoundError (EmbeddingFile concept era_file))
      | NotDirectory \<Rightarrow> Inl (FileNotFoundError (EmbeddingFile concept era_file))
      | StatFails \<Rightarrow> Inl OSError
      | Dir dir \<Rightarrow>
          (case map_of dir era_file of
             None \<Rightarrow> Inl (FileNotFoundError (EmbeddingFile concept era_file))
           | Some NotJson \<Rightarrow> Inl EmbeddingValidationError
           | Some (LoadRaises e) \<Rightarrow> Inl e
           | Some (EraDoc js) \<Rightarrow>
               let items = (case js of None \<Rightarrow> [] | Some xs \<Rightarrow> xs);
                   valid_items = filter has_required_fields items
               in Inr valid_items))"

text \<open>\<open>x.suffix == ".json"\<close>: the name ends in \<open>.json\<close> and that dot is not its first
  character.\<close>

definition has_json_suffix :: "string \<Rightarrow> bool" where
  "has_json_suffix name = (5 < length name \<and> drop (length name - 5) name = ''.json'')"

text \<open>\<open>fn.replace(".json", "")\<close>: every occurrence is removed, from the left.\<close>

fun remove_json :: "string \<Rightarrow> string" where
  "remove_json [] = []"
| "remove_json (c # cs) =
     (if take 5 (c # cs) = ''.json'' then remove_json (drop 4 cs) else c # remove_json cs)"

record era =
  era_name :: string
  era_items :: "item list"

text \<open>The loop of \<open>load_all_eras\<close>: \<open>FileNotFoundError\<close> and
  \<open>EmbeddingValidationError\<close> skip the file, any other exception leaves the function.\<close>

fun load_eras_loop :: "disk \<Rightarrow> string \<Rightarrow> string list \<Rightarrow> py_error + era list" where
  "load_eras_loop d concept [] = Inr []"
| "load_eras_loop d concept (fn # fns) =
     (case load_era_items d concept fn of
        Inl (FileNotFoundError m) \<Rightarrow> load_eras_loop d concept fns
      | Inl EmbeddingValidationError \<Rightarrow> load_eras_loop d concept fns
      | Inl e \<Rightarrow> Inl e
      | Inr items \<Rightarrow>
          (case load_eras_loop d concept fns of
             Inl e \<Rightarrow> Inl e
           | Inr result \<Rightarrow>
               if items \<noteq> [] then Inr (\<lparr>era_name = remove_json fn, era_items = items\<rparr> # result)
               else Inr result))"

text \<open>The body of \<open>load_all_eras\<close>, before memoization.\<close>

definition load_all_eras_uncached :: "disk \<Rightarrow> string \<Rightarrow> py_error + era list" where
  "load_all_eras_uncached d concept =
     (case d concept of
        Missing \<Rightarrow> Inl (FileNotFoundError (ConceptDirectory concept))
      | StatFails \<Rightarrow> Inl OSError
      | NotDirectory \<Rightarrow> Inl OSError
      | Dir dir \<Rightarrow>
          let files = sort (filter has_json_suffix (map fst dir))
          in if files = [] then Inr [] else load_eras_loop d concept files)"

subsection \<open>\<open>functools.lru_cache\<close>\<close>

text \<open>
  The cache is the list of its entries, the most recently used first. A hit returns the
  stored value and moves the entry to the front; a miss runs the function, stores a
  returned value at the front and drops the entry at the back when the cache holds more
  than \<open>maxsize\<close>; an exception is not stored.
\<close>

type_synonym ('k, 'v) lru = "('k \<times> 'v) list"

definition lru_call ::
  "nat \<Rightarrow> ('k \<Rightarrow> py_error + 'v) \<Rightarrow> 'k \<Rightarrow> ('k, 'v) lru \<Rightarrow> (py_error + 'v) \<times> ('k, 'v) lru" where
  "lru_call maxsize f k cache =
     (case map_of cache k of
        Some v \<Rightarrow> (Inr v, (k, v) # filter (\<lambda>p. fst p \<noteq> k) cache)
      | None \<Rightarrow>
          (case f k of
             Inl e \<Rightarrow> (Inl e, cache)
           | Inr v \<Rightarrow> (Inr v, take maxsize ((k, v) # cache))))"

definition load_all_eras ::
  "disk \<Rightarrow> string \<Rightarrow> (string, era list) lru \<Rightarrow> (py_error + era list) \<times> (string, era list) lru" where
  "load_all_eras d concept cache = lru_call 128 (load_all_eras_uncached d) concept cache"

section \<open>utils.py: the timeline builder\<close>

record timeline_entry =
  entry_era :: string
  entry_top :: "top_item list"
  centroid_shift_from_prev :: real

record timeline_result =
  res_concept :: string
  res_timeline :: "timeline_entry list"
  res_error :: "not_found option"

fun timeline_loop ::
  "real list \<Rightarrow> int \<Rightarrow> real list option \<Rightarrow> era list \<Rightarrow> py_error + timeline_entry list" where
  "timeline_loop query_emb top_n prev_centroid [] = Inr []"
| "timeline_loop query_emb top_n prev_centroid (e # es) =
     (case top_similar_in_era query_emb (era_items e) top_n of
        Inl x \<Rightarrow> Inl x
      | Inr top_n_items \<Rightarrow>
          let centroid = compute_centroid (era_items e) in
          (case (if prev_centroid \<noteq> None then centroid_shift_score prev_centroid centroid
                 else Inr 0) of
             Inl x \<Rightarrow> Inl x
           | Inr shift \<Rightarrow>
               (case timeline_loop query_emb top_n centroid es of
                  Inl x \<Rightarrow> Inl x
                | Inr rest \<Rightarrow>
                    Inr (\<lparr>entry_era = era_name e, entry_top = top_n_items,
                          centroid_shift_from_prev = shift\<rparr> # rest))))"

definition build_timeline_for_query ::
  "disk \<Rightarrow> string \<Rightarrow> real list \<Rightarrow> int \<Rightarrow> (string, era list) lru
     \<Rightarrow> (py_error + timeline_result) \<times> (string, era list) lru" where
  "build_timeline_for_query d concept query_emb top_n cache =
     (case load_all_eras d concept cache of
        (Inl (FileNotFoundError m), cache') \<Rightarrow>
          (Inr \<lparr>res_concept = concept, res_timeline = [], res_error = Some m\<rparr>, cache')
      | (Inl e, cache') \<Rightarrow> (Inl e, cache')
      | (Inr eras, cache') \<Rightarrow>
          if eras = [] then
            (Inr \<lparr>res_concept = concept, res_timeline = [], res_error = None\<rparr>, cache')
          else (case timeline_loop query_emb top_n None eras of
                  Inl e \<Rightarrow> (Inl e, cache')
                | Inr result \<Rightarrow>
                    (Inr \<lparr>res_concept = concept, res_timeline = result, res_error = None\<rparr>, cache')))"

text \<open>A run of calls of \<open>load_all_eras\<close>, each on the disk as it is at that moment.\<close>

fun run_calls :: "(disk \<times> string) list \<Rightarrow> (string, era list) lru \<Rightarrow> (string, era list) lru" where
  "run_calls [] cache = cache"
| "run_calls ((d, concept) # calls) cache = run_calls calls (snd (load_all_eras d concept cache))"



text \<open>
  The entry of key \<open>k\<close> with value \<open>r\<close> is in the cache, and the entries in front of
  it have pairwise different keys, all from \<open>S\<close> (the keys asked for since \<open>k\<close> was
  last used).
\<close>

definition retained :: "'k \<Rightarrow> 'v \<Rightarrow> 'k set \<Rightarrow> ('k, 'v) lru \<Rightarrow> bool" where
  "retained k r S cache =
     (\<exists>pre post. cache = pre @ (k, r) # post \<and> k \<notin> fst ` set pre
        \<and> distinct (map fst pre) \<and> fst ` set pre \<subseteq> S)"

subsection \<open>Example data\<close>

definition freedom_item_1900s :: item where
  "freedom_item_1900s =
     \<lparr>item_id = Some ''freedom_1900s_0'', item_text = Some ''liberty of the press'',
      item_embedding = Some [1, 0]\<rparr>"

definition empty_embedding_item :: item where
  "empty_embedding_item =
     \<lparr>item_id = Some ''freedom_1960s_0'', item_text = Some ''free trade'',
      item_embedding = Some []\<rparr>"

definition freedom_item_2020s :: item where
  "freedom_item_2020s =
     \<lparr>item_id = Some ''freedom_2020s_0'', item_text = Some ''freedom of choice'',
      item_embedding = Some [0, 1]\<rparr>"

text \<open>One era file holding a sound item and an item whose embedding is the empty list.\<close>

definition mixed_era_disk :: disk where
  "mixed_era_disk =
     (\<lambda>c. if c = ''freedom''
          then Dir [(''1900s.json'', EraDoc (Some [freedom_item_1900s, empty_embedding_item]))]
          else Missing)"

text \<open>Three era files; the only item of the middle one has an empty embedding.\<close>

definition three_era_disk :: disk where
  "three_era_disk =
     (\<lambda>c. if c = ''freedom''
          then Dir [(''2020s.json'', EraDoc (Some [freedom_item_2020s])),
                    (''1900s.json'', EraDoc (Some [freedom_item_1900s])),
                    (''1960s.json'', EraDoc (Some [empty_embedding_item]))]
          else Missing)"

section \<open>etymology_service.py: strings\<close>





definition startswith :: "string \<Rightarrow> string \<Rightarrow> bool" where
  "startswith s prefix = (take (length prefix) s = prefix)"






section \<open>etymology_service.py: the JSON decoder\<close>

text \<open>
  \<open>json.loads\<close> of the standard library, as its scanner reads a text: white space is
  blank, tab, line feed and carriage return; a string ends at the next quote, rejects
  control characters and decodes the escapes (a \<open>\u\<close> escape to the UTF-8 bytes of its
  code point, each escape alone); a number is kept as its text; \<open>NaN\<close>, \<open>Infinity\<close> and
  \<open>-Infinity\<close> are accepted as numbers; a key that occurs twice keeps its place and
  takes the later value. The recursion runs on a counter that starts at twice the length of
  the text plus two; an array or an object takes two steps and at least two characters per
  level and one step per element, and a counter that runs out counts as a decoding error.
\<close>

datatype json =
    JNull
  | JBool bool
  | JNumber string
  | JString string
  | JArray "json list"
  | JObject "(string \<times> json) list"

definition is_ws :: "char \<Rightarrow> bool" where
  "is_ws c = (c \<in> set [CHR '' '', CHR 0x09, CHR 0x0A, CHR 0x0D])"

definition skip_ws :: "string \<Rightarrow> string" where
  "skip_ws s = dropWhile is_ws s"

definition is_digit :: "char \<Rightarrow> bool" where
  "is_digit c = (c \<in> set ''0123456789'')"

definition hex_value :: "char \<Rightarrow> nat option" where
  "hex_value c =
     map_of (zip ''0123456789abcdefABCDEF''
               [0, 1, 2, 3, 4, 5, 6, 7, 8, 9, 10, 11, 12, 13, 14, 15, 10, 11, 12, 13, 14, 15]) c"

definition hex4 :: "string \<Rightarrow> nat option" where
  "hex4 s =
     (case map hex_value s of
        [Some a, Some b, Some c, Some d] \<Rightarrow> Some (((a * 16 + b) * 16 + c) * 16 + d)
      | _ \<Rightarrow> None)"

definition utf8 :: "nat \<Rightarrow> string" where
  "utf8 cp =
     (if cp < 128 then [char_of cp]
      else if cp < 2048 then [char_of (192 + cp div 64), char_of (128 + cp mod 64)]
      else [char_of (224 + cp div 4096), char_of (128 + (cp div 64) mod 64),
            char_of (128 + cp mod 64)])"

definition unescape :: "char \<Rightarrow> char option" where
  "unescape e =
     map_of [(CHR 0x22, CHR 0x22), (CHR 0x5C, CHR 0x5C), (CHR ''/'', CHR ''/''),
             (CHR ''b'', CHR 0x08), (CHR ''f'', CHR 0x0C), (CHR ''n'', CHR 0x0A),
             (CHR ''r'', CHR 0x0D), (CHR ''t'', CHR 0x09)] e"

text \<open>The text after an opening quote: the decoded string and the rest after the closing
  quote.\<close>

fun lex_string :: "string \<Rightarrow> string \<Rightarrow> (string \<times> string) option" where
  "lex_string acc [] = None"
| "lex_string acc (c # cs) =
     (if c = CHR 0x22 then Some (rev acc, cs)
      else if c = CHR 0x5C then
        (case cs of
           [] \<Rightarrow> None
         | e # cs' \<Rightarrow>
             if e = CHR ''u'' then
               (case hex4 (take 4 cs') of
                  None \<Rightarrow> None
                | Some cp \<Rightarrow> lex_string (rev (utf8 cp) @ acc) (drop 4 cs'))
             else (case unescape e of
                     None \<Rightarrow> None
                   | Some ch \<Rightarrow> lex_string (ch # acc) cs'))
      else if (of_char c :: nat) < 32 then None
      else lex_string (c # acc) cs)"

text \<open>A number: an optional sign, an integer part without leading zero, and an optional
  fraction and exponent, each taken only when complete.\<close>

definition lex_number :: "string \<Rightarrow> (string \<times> string) option" where
  "lex_number s =
     (let sign = (if startswith s ''-'' then ''-'' else []);
          s1 = drop (length sign) s;
          ds = takeWhile is_digit s1
      in if ds = [] then None
         else
           let intpart = (if startswith ds ''0'' then ''0'' else ds);
               s2 = drop (length intpart) s1;
               fd = takeWhile is_digit (drop 1 s2);
               frac = (if startswith s2 ''.'' \<and> fd \<noteq> [] then ''.'' @ fd else []);
               s3 = drop (length frac) s2;
               e = take 1 s3;
               sg = (if startswith (drop 1 s3) ''-'' then ''-''
                     else if startswith (drop 1 s3) ''+'' then ''+'' else []);
               ed = takeWhile is_digit (drop (1 + length sg) s3);
               ex = (if (e = ''e'' \<or> e = ''E'') \<and> ed \<noteq> [] then e @ sg @ ed else []);
               s4 = drop (length ex) s3
           in Some (sign @ intpart @ frac @ ex, s4))"

text \<open>A value that is neither a string, an object nor an array.\<close>

definition lex_atom :: "string \<Rightarrow> (json \<times> string) option" where
  "lex_atom s =
     (if startswith s ''null'' then Some (JNull, drop 4 s)
      else if startswith s ''true'' then Some (JBool True, drop 4 s)
      else if startswith s ''false'' then Some (JBool False, drop 5 s)
      else (case lex_number s of
              Some (n, r) \<Rightarrow> Some (JNumber n, r)
            | None \<Rightarrow>
                if startswith s ''NaN'' then Some (JNumber ''NaN'', drop 3 s)
                else if startswith s ''Infinity'' then Some (JNumber ''Infinity'', drop 8 s)
                else if startswith s ''-Infinity'' then Some (JNumber ''-Infinity'', drop 9 s)
                else None))"

text \<open>Storing a key in a Python dict.\<close>

fun dict_set :: "string \<Rightarrow> 'v \<Rightarrow> (string \<times> 'v) list \<Rightarrow> (string \<times> 'v) list" where
  "dict_set k v [] = [(k, v)]"
| "dict_set k v ((k', v') # kvs) = (if k = k' then (k, v) # kvs else (k', v') # dict_set k v kvs)"

fun parse_value :: "nat \<Rightarrow> string \<Rightarrow> (json \<times> string) option"
  and parse_array :: "nat \<Rightarrow> json list \<Rightarrow> string \<Rightarrow> (json \<times> string) option"
  and parse_object :: "nat \<Rightarrow> (string \<times> json) list \<Rightarrow> string \<Rightarrow> (json \<times> string) option"
where
  "parse_value 0 s = None"
| "parse_value (Suc n) s =
     (case s of
        [] \<Rightarrow> None
      | c # cs \<Rightarrow>
          if c = CHR 0x22 then
            (case lex_string [] cs of None \<Rightarrow> None | Some (str, r) \<Rightarrow> Some (JString str, r))
          else if c = CHR ''{'' then
            (case skip_ws cs of
               [] \<Rightarrow> None
             | c1 # r \<Rightarrow> if c1 = CHR ''}'' then Some (JObject [], r) else parse_object n [] (c1 # r))
          else if c = CHR ''['' then
            (case skip_ws cs of
               [] \<Rightarrow> None
             | c1 # r \<Rightarrow> if c1 = CHR '']'' then Some (JArray [], r) else parse_array n [] (c1 # r))
          else lex_atom s)"
| "parse_array 0 acc s = None"
| "parse_array (Suc n) acc s =
     (case parse_value n s of
        None \<Rightarrow> None
      | Some (v, r) \<Rightarrow>
          (case skip_ws r of
             [] \<Rightarrow> None
           | c # cs \<Rightarrow>
               if c = CHR '']'' then Some (JArray (rev (v # acc)), cs)
               else if c = CHR '','' then parse_array n (v # acc) (skip_ws cs)
               else None))"
| "parse_object 0 acc s = None"
| "parse_object (Suc n) acc s =
     (case s of
        [] \<Rightarrow> None
      | c # cs \<Rightarrow>
          if c \<noteq> CHR 0x22 then None
          else (case lex_string [] cs of
                  None \<Rightarrow> None
                | Some (k, r) \<Rightarrow>
                    (case skip_ws r of
                       [] \<Rightarrow> None
                     | c1 # r1 \<Rightarrow>
                         if c1 \<noteq> CHR '':'' then None
                         else (case parse_value n (skip_ws r1) of
                                 None \<Rightarrow> None
                               | Some (v, r2) \<Rightarrow>
                                   (case skip_ws r2 of
                                      [] \<Rightarrow> None
                                    | c2 # r3 \<Rightarrow>
                                        if c2 = CHR ''}'' then Some (JObject (dict_set k v acc), r3)
                                        else if c2 = CHR '','' then
                                          parse_object n (dict_set k v acc) (skip_ws r3)
                                        else None)))))"


section \<open>etymology_service.py: the response parser\<close>





section \<open>etymology_service.py: the generation client\<close>


text \<open>
  What one request to the language model does: it returns a completion whose message
  content is a text or \<open>None\<close>, or raises the builtin \<open>TimeoutError\<close>, or raises another
  exception. The service is the function from the number of requests made so far and the
  prompt to the reply.
\<close>

datatype reply =
    Completion "string option"
  | RaisesTimeoutError
  | RaisesException string

type_synonym upstream = "nat \<Rightarrow> string \<Rightarrow> reply"

text \<open>
  The body of \<open>_call_openrouter\<close>, one attempt. The \<open>OpenRouterError\<close> raised for an
  empty content is raised inside the \<open>try\<close>, caught by \<open>except Exception\<close> and raised
  again as an \<open>OpenRouterError\<close>.
\<close>

definition call_openrouter_attempt :: "reply \<Rightarrow> py_error + string" where
  "call_openrouter_attempt r =
     (case r of
        Completion None \<Rightarrow>
          Inl (OpenRouterError ''API call failed: Empty response from OpenRouter'')
      | Completion (Some content) \<Rightarrow>
          if content = [] then
            Inl (OpenRouterError ''API call failed: Empty response from OpenRouter'')
          else Inr content
      | RaisesTimeoutError \<Rightarrow> Inl TimeoutError
      | RaisesException msg \<Rightarrow> Inl (OpenRouterError (''API call failed: '' @ msg)))"

text \<open>\<open>retry_if_exception_type((OpenRouterError, TimeoutError))\<close>\<close>

definition retry_if_exception_type :: "py_error \<Rightarrow> bool" where
  "retry_if_exception_type e =
     (case e of OpenRouterError m \<Rightarrow> True | TimeoutError \<Rightarrow> True | _ \<Rightarrow> False)"

text \<open>
  The \<open>retry\<close> decorator with \<open>stop_after_attempt(3)\<close> and \<open>reraise=True\<close>: an attempt
  that returns ends the loop; an exception that is not retried, or that is raised by
  attempt 3 or later, leaves the loop as it is; otherwise the next attempt follows (the
  wait between attempts has no effect on the result). The second component is the number
  of requests made so far.
\<close>

function retry_loop :: "upstream \<Rightarrow> string \<Rightarrow> nat \<Rightarrow> nat \<Rightarrow> (py_error + string) \<times> nat" where
  "retry_loop up prompt calls attempt_number =
     (case call_openrouter_attempt (up calls prompt) of
        Inr content \<Rightarrow> (Inr content, Suc calls)
      | Inl e \<Rightarrow>
          if \<not> retry_if_exception_type e then (Inl e, Suc calls)
          else if 3 \<le> attempt_number then (Inl e, Suc calls)
          else retry_loop up prompt (Suc calls) (Suc attempt_number))"
  by pat_completeness auto
termination
  by (relation "measure (\<lambda>(up, prompt, calls, attempt_number). 3 - attempt_number)") auto

declare retry_loop.simps [simp del]

definition call_openrouter :: "upstream \<Rightarrow> string \<Rightarrow> nat \<Rightarrow> (py_error + string) \<times> nat" where
  "call_openrouter up prompt calls = retry_loop up prompt calls 1"

section \<open>etymology_service.py: the evolution generator\<close>







text \<open>A language model that times out twice and then answers.\<close>

definition slow_upstream :: upstream where
  "slow_upstream = (\<lambda>i prompt. if i < 2 then RaisesTimeoutError else Completion (Some ''{}''))"

section \<open>Properties of the drift engine\<close>

text \<open>
  Claim C5. The centroid of the empty item set is none (neither an error nor a zero
  vector), and the drift is exactly 0.0 as soon as one of the two centroids is none.
\<close>

theorem centroid_empty_drift_none:
  "compute_centroid [] = None
   \<and> centroid_shift_score None b = Inr 0
   \<and> centroid_shift_score a None = Inr 0"
  by (simp add: compute_centroid_def centroid_shift_score_def split: option.splits)

text \<open>
  Claim C10. For every pair of centroids that are both present, the drift returns a
  number and raises nothing; when the cosine computation fails (for example on rows of
  different widths) the value returned is 0.0.
\<close>

theorem centroid_shift_score_total:
  "(\<exists>r. centroid_shift_score (Some a) (Some b) = Inr r)
   \<and> (\<forall>e. cosine_similarity a b = Inl e \<longrightarrow> centroid_shift_score (Some a) (Some b) = Inr 0)"
  by (simp add: centroid_shift_score_def split: sum.splits)

theorem centroid_shift_score_total_witness:
  "cosine_similarity [1] [1, 2] = Inl (ValueError ''Incompatible dimension for X and Y matrices'')
   \<and> centroid_shift_score (Some [1]) (Some [1, 2]) = Inr 0"
  using centroid_shift_score_total [of "[1]" "[1, 2]"]
  by (simp add: cosine_similarity_def)

subsection \<open>The drift of a row against itself, in exact arithmetic\<close>


lemma dot_self: "dot xs xs = (\<Sum>x\<leftarrow>xs. x * x)"
  by (simp add: dot_def zip_same_conv_map comp_def)

lemma sum_squares_nonneg: "0 \<le> (\<Sum>v\<leftarrow>c. v * v)" for c :: "real list"
  by (induction c) simp_all

lemma sum_list_divide_const:
  "(\<Sum>v\<leftarrow>c. f v / k) = (\<Sum>v\<leftarrow>c. f v) / k" for k :: real
  by (induction c) (simp_all add: add_divide_distrib)

lemma dot_normalize_self:
  assumes "row_norm c \<noteq> 0"
  shows "dot (normalize c) (normalize c) = 1"
proof -
  let ?S = "\<Sum>v\<leftarrow>c. v * v"
  let ?n = "row_norm c"
  have nn: "?n * ?n = ?S"
    using sum_squares_nonneg [of c] by (simp add: row_norm_def)
  have "dot (normalize c) (normalize c) = (\<Sum>v\<leftarrow>c. (v * v) / (?n * ?n))"
    using assms by (simp add: dot_self normalize_def Let_def comp_def)
  also have "\<dots> = ?S / (?n * ?n)"
    by (rule sum_list_divide_const)
  also have "\<dots> = 1"
  proof -
    from assms have "?n * ?n \<noteq> 0" by simp
    then have "?n * ?n / (?n * ?n) = 1" by (rule divide_self)
    then show ?thesis by (simp only: nn)
  qed
  finally show ?thesis .
qed

text \<open>
  In the exact arithmetic of the model the drift of a row against itself is 0 as soon as
  its norm is not 0. The code computes in binary floating point, where the product of a
  normalized row with itself need not round to 1; the rounding is outside the model, so
  this is a fact about the arithmetic of the model only.
\<close>

lemma centroid_shift_self_exact:
  "c \<noteq> [] \<Longrightarrow> row_norm c \<noteq> 0 \<Longrightarrow> centroid_shift_score (Some c) (Some c) = Inr 0"
  by (simp add: centroid_shift_score_def cosine_similarity_def dot_normalize_self)


section \<open>Properties of the similarity engine\<close>




lemma argsort_length: "length (argsort sims) = length sims"
  by (simp add: argsort_def)

















section \<open>Properties of loading and of the timeline\<close>

text \<open>
  Claim C2, at an era file with one sound item and one item whose embedding is the empty
  list. \<open>validate_item\<close> rejects the second item, yet \<open>load_era_items\<close> returns it: the
  filter looks at the presence of the keys only. With it among the loaded items the
  conversion to an array fails, so the era has no ranking and no centroid.
\<close>

theorem load_era_items_keeps_empty_embedding:
  "validate_item empty_embedding_item 1 = Inl EmbeddingValidationError
   \<and> load_era_items mixed_era_disk ''freedom'' ''1900s.json''
       = Inr [freedom_item_1900s, empty_embedding_item]
   \<and> top_similar_in_era [1, 0] [freedom_item_1900s, empty_embedding_item] 6 = Inr []
   \<and> compute_centroid [freedom_item_1900s, empty_embedding_item] = None"
  by (simp add: validate_item_def load_era_items_def has_required_fields_def
        top_similar_in_era_def top_similar_body_def to_numpy_embeddings_def compute_centroid_def
        freedom_item_1900s_def empty_embedding_item_def mixed_era_disk_def)

text \<open>
  Claim C4, at a concept with the era files 1900s, 1960s and 2020s, where the only item
  of 1960s has an empty embedding and is rejected by \<open>validate_item\<close>. The timeline has
  an entry for 1960s, and the drift of 2020s is 0.0, whereas the drift between the
  centroids of 1900s and 2020s is 1.
\<close>

theorem build_timeline_keeps_invalid_era:
  "validate_item empty_embedding_item 0 = Inl EmbeddingValidationError
   \<and> fst (build_timeline_for_query three_era_disk ''freedom'' [1, 0] 6 [])
       = Inr \<lparr>res_concept = ''freedom'',
              res_timeline =
                [\<lparr>entry_era = ''1900s'',
                  entry_top = [\<lparr>top_id = ''freedom_1900s_0'', top_text = ''liberty of the press'',
                                score = 1\<rparr>],
                  centroid_shift_from_prev = 0\<rparr>,
                 \<lparr>entry_era = ''1960s'', entry_top = [], centroid_shift_from_prev = 0\<rparr>,
                 \<lparr>entry_era = ''2020s'',
                  entry_top = [\<lparr>top_id = ''freedom_2020s_0'', top_text = ''freedom of choice'',
                                score = 0\<rparr>],
                  centroid_shift_from_prev = 0\<rparr>],
              res_error = None\<rparr>
   \<and> centroid_shift_score (compute_centroid [freedom_item_1900s])
         (compute_centroid [freedom_item_2020s]) = Inr 1"
  by (simp add: validate_item_def load_era_items_def has_required_fields_def
        top_similar_in_era_def top_similar_body_def to_numpy_embeddings_def np_size_def
        cosine_similarity_rows_def cosine_similarity_def dot_def normalize_def row_norm_def
        argsort_def py_slice_to_def out_entry_def compute_centroid_def np_mean_axis0_def
        centroid_shift_score_def build_timeline_for_query_def load_all_eras_def lru_call_def
        load_all_eras_uncached_def has_json_suffix_def
        freedom_item_1900s_def empty_embedding_item_def freedom_item_2020s_def
        three_era_disk_def)




subsection \<open>Memoization of \<open>load_all_eras\<close>\<close>


lemma take_past_prefix:
  "length xs < m \<Longrightarrow> take m (xs @ y # ys) = xs @ y # take (m - length xs - 1) ys"
  by (simp add: take_Cons')

lemma retained_mono:
  assumes r: "retained k r S cache" and st: "S \<subseteq> T"
  shows "retained k r T cache"
proof -
  from r obtain pre post where c: "cache = pre @ (k, r) # post" and k: "k \<notin> fst ` set pre"
    and d: "distinct (map fst pre)" and s: "fst ` set pre \<subseteq> S"
    unfolding retained_def by (elim exE conjE) (rule that)
  from s st have "fst ` set pre \<subseteq> T" by (rule subset_trans)
  with c k d show ?thesis
    unfolding retained_def by (intro exI [of _ pre] exI [of _ post]) simp
qed

lemma retained_lookup: "retained k r S cache \<Longrightarrow> map_of cache k = Some r"
proof -
  assume "retained k r S cache"
  then obtain pre post where c: "cache = pre @ (k, r) # post" and k: "k \<notin> fst ` set pre"
    unfolding retained_def by (elim exE conjE) (rule that)
  from k have "map_of pre k = None" by (simp add: map_of_eq_None_iff)
  then show ?thesis by (simp add: c map_add_def)
qed

lemma retained_hit:
  assumes "retained k r S cache"
  shows "fst (lru_call m f k cache) = Inr r \<and> retained k r {} (snd (lru_call m f k cache))"
proof -
  have "map_of cache k = Some r" by (rule retained_lookup [OF assms])
  then have "lru_call m f k cache = (Inr r, (k, r) # filter (\<lambda>p. fst p \<noteq> k) cache)"
    by (simp add: lru_call_def)
  moreover have "retained k r {} ((k, r) # filter (\<lambda>p. fst p \<noteq> k) cache)"
    unfolding retained_def by (intro exI [of _ "[]"] exI [of _ "filter (\<lambda>p. fst p \<noteq> k) cache"]) simp
  ultimately show ?thesis by simp
qed

lemma retained_first:
  assumes "lru_call (Suc m) f k cache = (Inr r, cache')"
  shows "retained k r {} cache'"
proof -
  have "\<exists>post. cache' = (k, r) # post"
    using assms by (auto simp: lru_call_def split: option.splits sum.splits)
  then obtain post where "cache' = [] @ (k, r) # post" by auto
  then show ?thesis unfolding retained_def by (intro exI [of _ "[]"] exI [of _ post]) simp
qed

lemma retained_other:
  assumes ret: "retained k r S cache" and jk: "j \<noteq> k" and fin: "finite S"
    and card: "card (insert j S) < m"
  shows "retained k r (insert j S) (snd (lru_call m f j cache))"
proof -
  from ret obtain pre post where c: "cache = pre @ (k, r) # post" and k: "k \<notin> fst ` set pre"
    and d: "distinct (map fst pre)" and sub: "fst ` set pre \<subseteq> S"
    unfolding retained_def by (elim exE conjE) (rule that)
  show ?thesis
  proof (cases "map_of cache j")
    case (Some v)
    then have new: "snd (lru_call m f j cache)
        = ((j, v) # filter (\<lambda>p. fst p \<noteq> j) pre) @ (k, r) # filter (\<lambda>p. fst p \<noteq> j) post"
      using jk by (simp add: lru_call_def c)
    have "distinct (map fst ((j, v) # filter (\<lambda>p. fst p \<noteq> j) pre))"
      using d by (auto simp: distinct_map_filter)
    moreover have "k \<notin> fst ` set ((j, v) # filter (\<lambda>p. fst p \<noteq> j) pre)"
      using k jk by auto
    moreover have "fst ` set ((j, v) # filter (\<lambda>p. fst p \<noteq> j) pre) \<subseteq> insert j S"
      using sub by auto
    ultimately show ?thesis unfolding retained_def new
      by (intro exI [of _ "(j, v) # filter (\<lambda>p. fst p \<noteq> j) pre"]
                exI [of _ "filter (\<lambda>p. fst p \<noteq> j) post"] conjI) simp_all
  next
    case None
    show ?thesis
    proof (cases "f j")
      case (Inl e)
      with None have "snd (lru_call m f j cache) = cache" by (simp add: lru_call_def)
      with ret show ?thesis by (simp add: retained_mono [OF _ subset_insertI])
    next
      case (Inr v)
      with None have "snd (lru_call m f j cache) = take m ((j, v) # cache)"
        by (simp add: lru_call_def)
      then have new: "snd (lru_call m f j cache) = take m (((j, v) # pre) @ (k, r) # post)"
        by (simp add: c)
      from None have jn: "j \<notin> fst ` set pre"
        by (auto simp: c map_of_eq_None_iff)
      have dist: "distinct (map fst ((j, v) # pre))" using d jn by simp
      have subs: "fst ` set ((j, v) # pre) \<subseteq> insert j S" using sub by auto
      have "length ((j, v) # pre) = card (fst ` set ((j, v) # pre))"
        using distinct_card [OF dist] by (simp only: length_map set_map)
      also have "\<dots> \<le> card (insert j S)"
        by (rule card_mono [OF _ subs]) (simp add: fin)
      finally have len: "length ((j, v) # pre) < m" using card by simp
      then have "take m (((j, v) # pre) @ (k, r) # post)
          = ((j, v) # pre) @ (k, r) # take (m - length ((j, v) # pre) - 1) post"
        by (rule take_past_prefix)
      with new have "snd (lru_call m f j cache)
          = ((j, v) # pre) @ (k, r) # take (m - length ((j, v) # pre) - 1) post" by simp
      moreover have "k \<notin> fst ` set ((j, v) # pre)" using k jk by auto
      ultimately show ?thesis unfolding retained_def using dist subs
        by (intro exI [of _ "(j, v) # pre"]
                  exI [of _ "take (m - length ((j, v) # pre) - 1) post"] conjI) simp_all
    qed
  qed
qed

lemma run_calls_retained:
  assumes "retained k r S cache" and "finite S"
    and "card (S \<union> (set (map snd calls) - {k})) < 128"
  shows "retained k r (S \<union> (set (map snd calls) - {k})) (run_calls calls cache)"
  using assms
proof (induction calls arbitrary: S cache)
  case Nil
  then show ?case by simp
next
  case (Cons call calls)
  obtain d j where call: "call = (d, j)" by (cases call)
  let ?rest = "set (map snd calls) - {k}"
  show ?case
  proof (cases "j = k")
    case True
    have sub: "S \<union> ?rest \<subseteq> S \<union> (set (map snd (call # calls)) - {k})" by auto
    have "card (S \<union> ?rest) < 128"
      using Cons.prems(3) True call by simp
    moreover have "retained k r S (snd (load_all_eras d k cache))"
      using retained_hit [OF Cons.prems(1), of 128 "load_all_eras_uncached d"]
      by (simp add: load_all_eras_def retained_mono [OF _ empty_subsetI])
    ultimately have "retained k r (S \<union> ?rest) (run_calls calls (snd (load_all_eras d k cache)))"
      using Cons.IH Cons.prems(2) by blast
    from retained_mono [OF this sub] show ?thesis using True call by simp
  next
    case False
    have eq: "S \<union> (set (map snd (call # calls)) - {k}) = insert j S \<union> ?rest"
      using False call by auto
    have fin: "finite (insert j S \<union> ?rest)" using Cons.prems(2) by simp
    have "card (insert j S) \<le> card (insert j S \<union> ?rest)"
      by (rule card_mono [OF fin]) (rule Un_upper1)
    then have c1: "card (insert j S) < 128" using Cons.prems(3) eq by simp
    have "retained k r (insert j S) (snd (load_all_eras d j cache))"
      unfolding load_all_eras_def
      by (rule retained_other [OF Cons.prems(1) False Cons.prems(2) c1])
    moreover have "card (insert j S \<union> ?rest) < 128" using Cons.prems(3) eq by simp
    ultimately have "retained k r (insert j S \<union> ?rest) (run_calls calls (snd (load_all_eras d j cache)))"
      using Cons.IH [of "insert j S"] Cons.prems(2) by simp
    then show ?thesis using call eq by simp
  qed
qed

lemma build_timeline_depends_on_load:
  "fst (load_all_eras d concept cache) = fst (load_all_eras d' concept cache') \<Longrightarrow>
   fst (build_timeline_for_query d concept q n cache) = fst (build_timeline_for_query d' concept q n cache')"
  by (auto simp: build_timeline_for_query_def split: prod.splits sum.splits py_error.splits)

text \<open>
  Claim C9. Once \<open>load_all_eras\<close> has returned a result for a concept, every later
  call for that concept returns the same result whatever the disk holds by then, as long
  as fewer than 128 other concepts were asked for in between; \<open>build_timeline_for_query\<close>
  then answers as it did on the first disk.
\<close>

theorem load_all_eras_memoized:
  assumes "load_all_eras d0 concept cache0 = (Inr eras, cache1)"
    and "card (set (map snd calls) - {concept}) < 128"
  shows "fst (load_all_eras d concept (run_calls calls cache1)) = Inr eras
       \<and> fst (build_timeline_for_query d concept q n (run_calls calls cache1))
           = fst (build_timeline_for_query d0 concept q n cache0)"
proof -
  have "retained concept eras {} cache1"
    using assms(1) unfolding load_all_eras_def by (rule retained_first [of 127, simplified])
  from run_calls_retained [OF this, of calls] assms(2)
  have "retained concept eras (set (map snd calls) - {concept}) (run_calls calls cache1)"
    by simp
  from retained_hit [OF this, of 128 "load_all_eras_uncached d"]
  have 1: "fst (load_all_eras d concept (run_calls calls cache1)) = Inr eras"
    by (simp add: load_all_eras_def)
  with assms(1) have "fst (load_all_eras d concept (run_calls calls cache1))
      = fst (load_all_eras d0 concept cache0)" by simp
  from build_timeline_depends_on_load [OF this] 1 show ?thesis by simp
qed


theorem load_all_eras_memoized_witness:
  "load_all_eras mixed_era_disk ''freedom'' []
     = (Inr [\<lparr>era_name = ''1900s'', era_items = [freedom_item_1900s, empty_embedding_item]\<rparr>],
        [(''freedom'', [\<lparr>era_name = ''1900s'', era_items = [freedom_item_1900s, empty_embedding_item]\<rparr>])])
   \<and> card (set (map snd [(three_era_disk, ''justice'')]) - {''freedom''}) < 128
   \<and> fst (load_all_eras (\<lambda>c. Missing) ''freedom''
          (run_calls [(three_era_disk, ''justice'')]
             [(''freedom'', [\<lparr>era_name = ''1900s'', era_items = [freedom_item_1900s, empty_embedding_item]\<rparr>])]))
       = Inr [\<lparr>era_name = ''1900s'', era_items = [freedom_item_1900s, empty_embedding_item]\<rparr>]"
proof -
  have h1: "load_all_eras mixed_era_disk ''freedom'' []
     = (Inr [\<lparr>era_name = ''1900s'', era_items = [freedom_item_1900s, empty_embedding_item]\<rparr>],
        [(''freedom'', [\<lparr>era_name = ''1900s'', era_items = [freedom_item_1900s, empty_embedding_item]\<rparr>])])"
    by (simp add: load_all_eras_def lru_call_def load_all_eras_uncached_def has_json_suffix_def
          load_era_items_def has_required_fields_def mixed_era_disk_def
          freedom_item_1900s_def empty_embedding_item_def)
  have h2: "card (set (map snd [(three_era_disk, ''justice'')]) - {''freedom''}) < 128"
    by simp
  from load_all_eras_memoized [OF h1 h2, of "\<lambda>c. Missing" "[1, 0]" 6] h1 h2
  show ?thesis by simp
qed

section \<open>Properties of the generation client\<close>


lemma attempt_error_retried:
  "call_openrouter_attempt r = Inl e \<Longrightarrow> retry_if_exception_type e"
  by (auto simp: call_openrouter_attempt_def retry_if_exception_type_def
      split: reply.splits option.splits if_splits)

lemma attempt_not_empty: "call_openrouter_attempt r \<noteq> Inr []"
  by (auto simp: call_openrouter_attempt_def split: reply.splits option.splits)

lemma retry_loop_last:
  "retry_loop up prompt calls 3 = (call_openrouter_attempt (up calls prompt), Suc calls)"
  by (subst retry_loop.simps) (simp split: sum.splits)

lemma retry_loop_step:
  "attempt_number < 3 \<Longrightarrow>
   retry_loop up prompt calls attempt_number =
     (case call_openrouter_attempt (up calls prompt) of
        Inr content \<Rightarrow> (Inr content, Suc calls)
      | Inl e \<Rightarrow> retry_loop up prompt (Suc calls) (Suc attempt_number))"
  by (subst retry_loop.simps) (auto split: sum.splits dest: attempt_error_retried)

lemma call_openrouter_unfold:
  "call_openrouter up prompt calls =
     (case call_openrouter_attempt (up calls prompt) of
        Inr content \<Rightarrow> (Inr content, calls + 1)
      | Inl e \<Rightarrow>
          (case call_openrouter_attempt (up (calls + 1) prompt) of
             Inr content \<Rightarrow> (Inr content, calls + 2)
           | Inl e \<Rightarrow> (call_openrouter_attempt (up (calls + 2) prompt), calls + 3)))"
proof -
  have s1: "retry_loop up prompt calls (Suc 0) =
     (case call_openrouter_attempt (up calls prompt) of
        Inr content \<Rightarrow> (Inr content, Suc calls)
      | Inl e \<Rightarrow> retry_loop up prompt (Suc calls) (Suc (Suc 0)))"
    by (rule retry_loop_step) simp
  have s2: "retry_loop up prompt (Suc calls) (Suc (Suc 0)) =
     (case call_openrouter_attempt (up (Suc calls) prompt) of
        Inr content \<Rightarrow> (Inr content, Suc (Suc calls))
      | Inl e \<Rightarrow> retry_loop up prompt (Suc (Suc calls)) (Suc (Suc (Suc 0))))"
    by (rule retry_loop_step) simp
  have s3: "retry_loop up prompt (Suc (Suc calls)) (Suc (Suc (Suc 0)))
      = (call_openrouter_attempt (up (Suc (Suc calls)) prompt), Suc (Suc (Suc calls)))"
    using retry_loop_last [of up prompt "Suc (Suc calls)"] by (simp add: numeral_3_eq_3)
  show ?thesis
    by (simp add: call_openrouter_def s1 s2 s3 split: sum.splits)
qed

text \<open>
  Claim C7. A call of the generation client makes between one and three requests. Its
  outcome is the outcome of the last request, unchanged; every request before the last
  one failed with an \<open>OpenRouterError\<close> or a \<open>TimeoutError\<close>; a failure is returned only
  after the third request; and the outcome is never an empty text: an empty or missing
  content is an \<open>OpenRouterError\<close>.
\<close>

theorem call_openrouter_bounded_retry:
  "(let res = fst (call_openrouter up prompt calls);
        k = snd (call_openrouter up prompt calls) - calls
    in 1 \<le> k \<and> k \<le> 3
       \<and> res = call_openrouter_attempt (up (calls + k - 1) prompt)
       \<and> (\<forall>j<k - 1. \<exists>e. call_openrouter_attempt (up (calls + j) prompt) = Inl e
                          \<and> retry_if_exception_type e)
       \<and> (\<forall>e. res = Inl e \<longrightarrow> k = 3 \<and> retry_if_exception_type e)
       \<and> res \<noteq> Inr [])
   \<and> call_openrouter_attempt (Completion None)
       = Inl (OpenRouterError ''API call failed: Empty response from OpenRouter'')
   \<and> call_openrouter_attempt (Completion (Some []))
       = Inl (OpenRouterError ''API call failed: Empty response from OpenRouter'')"
proof -
  let ?a = "\<lambda>j. call_openrouter_attempt (up (calls + j) prompt)"
  have empty: "call_openrouter_attempt (Completion None)
       = Inl (OpenRouterError ''API call failed: Empty response from OpenRouter'')"
    "call_openrouter_attempt (Completion (Some []))
       = Inl (OpenRouterError ''API call failed: Empty response from OpenRouter'')"
    by (simp_all add: call_openrouter_attempt_def)
  have lt: "j < Suc (Suc 0) \<longleftrightarrow> j = 0 \<or> j = 1" for j :: nat by auto
  have main: "(let res = fst (call_openrouter up prompt calls);
        k = snd (call_openrouter up prompt calls) - calls
    in 1 \<le> k \<and> k \<le> 3
       \<and> res = ?a (k - 1)
       \<and> (\<forall>j<k - 1. \<exists>e. ?a j = Inl e \<and> retry_if_exception_type e)
       \<and> (\<forall>e. res = Inl e \<longrightarrow> k = 3 \<and> retry_if_exception_type e)
       \<and> res \<noteq> Inr [])"
  proof (cases "?a 0")
    case (Inr c)
    then show ?thesis
      using attempt_not_empty [of "up calls prompt"]
      by (simp add: call_openrouter_unfold Let_def)
  next
    case a0: (Inl e0)
    show ?thesis
    proof (cases "?a 1")
      case (Inr c)
      then show ?thesis
        using a0 attempt_not_empty [of "up (calls + 1) prompt"] attempt_error_retried [of "up calls prompt" e0]
        by (simp add: call_openrouter_unfold Let_def)
    next
      case a1: (Inl e1)
      show ?thesis
        using a0 a1 attempt_not_empty [of "up (calls + 2) prompt"]
          attempt_error_retried [of "up calls prompt" e0]
          attempt_error_retried [of "up (calls + 1) prompt" e1]
          attempt_error_retried [of "up (calls + 2) prompt"]
        by (auto simp: call_openrouter_unfold Let_def lt numeral_2_eq_2)
    qed
  qed
  have "calls + k - 1 = calls + (k - 1)" if "1 \<le> k" for k using that by simp
  with main empty show ?thesis by (auto simp: Let_def)
qed

theorem call_openrouter_bounded_retry_witness:
  "call_openrouter slow_upstream ''prompt'' 0 = (Inr ''{}'', 3)
   \<and> call_openrouter_attempt (slow_upstream 0 ''prompt'') = Inl TimeoutError
   \<and> call_openrouter_attempt (slow_upstream 1 ''prompt'') = Inl TimeoutError
   \<and> retry_if_exception_type TimeoutError"
  using call_openrouter_bounded_retry [of slow_upstream "''prompt''" 0]
  by (simp add: call_openrouter_unfold slow_upstream_def call_openrouter_attempt_def
        retry_if_exception_type_def)

section \<open>Properties of the evolution generator\<close>














end
